theory Spec2Isabelle
  imports Complex_Main "HOL-Library.AList"
begin

section \<open>Python values\<close>

text \<open>
  The values of \<^verbatim>\<open>pdf_vendor_matcher.py\<close> that the validation pipeline handles.
  A \<open>scalar\<close> is what pandas hands over for one spreadsheet cell, what \<^verbatim>\<open>dict.get\<close>
  gives for an absent key (\<open>SNone\<close>), or an atomic JSON value of the text-understanding
  service. \<open>SNaN\<close> is the float \<^verbatim>\<open>nan\<close> of an empty cell. Numbers are exact: \<open>SFloat r t\<close>
  is a float of value \<open>r\<close> (binary rounding is not modelled) and \<open>t\<close> is the text that
  Python's \<^verbatim>\<open>str\<close> prints for it; \<open>STime t\<close> is a pandas timestamp printed as \<open>t\<close>.
  Strings are ASCII texts.
\<close>

datatype scalar =
    SNone
  | SNaN
  | SBool bool
  | SInt int
  | SFloat rat string
  | SStr string
  | STime string

datatype pyval =
    Sc scalar
  | PList "pyval list"
  | PDict "(string \<times> pyval) list"

type_synonym pydict = "(string \<times> pyval) list"

abbreviation PNone :: pyval where "PNone \<equiv> Sc SNone"
abbreviation PBool :: "bool \<Rightarrow> pyval" where "PBool b \<equiv> Sc (SBool b)"
abbreviation PStr :: "string \<Rightarrow> pyval" where "PStr s \<equiv> Sc (SStr s)"

datatype py_error = TypeError | AttributeError | IndexError

text \<open>Truthiness (\<^verbatim>\<open>if x\<close>, \<^verbatim>\<open>not x\<close>, \<^verbatim>\<open>x or y\<close>): \<^verbatim>\<open>nan\<close> is a non-zero float, hence true.\<close>

fun truthy :: "scalar \<Rightarrow> bool" where
  "truthy SNone = False"
| "truthy SNaN = True"
| "truthy (SBool b) = b"
| "truthy (SInt i) = (i \<noteq> 0)"
| "truthy (SFloat r t) = (r \<noteq> 0)"
| "truthy (SStr s) = (s \<noteq> [])"
| "truthy (STime t) = True"

fun truthy_val :: "pyval \<Rightarrow> bool" where
  "truthy_val (Sc s) = truthy s"
| "truthy_val (PList xs) = (xs \<noteq> [])"
| "truthy_val (PDict d) = (d \<noteq> [])"

definition py_or :: "scalar \<Rightarrow> scalar \<Rightarrow> scalar" where
  "py_or a b = (if truthy a then a else b)"

text \<open>\<^verbatim>\<open>pd.isna\<close> and \<^verbatim>\<open>pd.notna\<close> on a scalar.\<close>

fun isna :: "scalar \<Rightarrow> bool" where
  "isna SNone = True"
| "isna SNaN = True"
| "isna _ = False"



section \<open>Strings\<close>

definition lower_char :: "char \<Rightarrow> char" where
  "lower_char c =
     (case map_of (zip ''ABCDEFGHIJKLMNOPQRSTUVWXYZ'' ''abcdefghijklmnopqrstuvwxyz'') c of
        None \<Rightarrow> c
      | Some d \<Rightarrow> d)"

definition lower :: "string \<Rightarrow> string" where
  "lower s = map lower_char s"

definition is_space :: "char \<Rightarrow> bool" where
  "is_space c =
     (c \<in> set [CHR 0x09, CHR 0x0A, CHR 0x0B, CHR 0x0C, CHR 0x0D,
                CHR 0x1C, CHR 0x1D, CHR 0x1E, CHR 0x1F, CHR '' ''])"

definition strip :: "string \<Rightarrow> string" where
  "strip s = rev (dropWhile is_space (rev (dropWhile is_space s)))"

fun starts_with :: "string \<Rightarrow> string \<Rightarrow> bool" where
  "starts_with [] t = True"
| "starts_with (c # s) [] = False"
| "starts_with (c # s) (d # t) = (c = d \<and> starts_with s t)"

text \<open>\<^verbatim>\<open>s in t\<close> on strings: \<open>s\<close> occurs in \<open>t\<close> as a contiguous substring.\<close>

fun contains :: "string \<Rightarrow> string \<Rightarrow> bool" where
  "contains s [] = (s = [])"
| "contains s (d # t) = (starts_with s (d # t) \<or> contains s t)"

fun join_str :: "string \<Rightarrow> string list \<Rightarrow> string" where
  "join_str sep [] = []"
| "join_str sep [x] = x"
| "join_str sep (x # y # ys) = x @ sep @ join_str sep (y # ys)"

fun digits :: "nat \<Rightarrow> string" where
  "digits n =
     (if n < 10 then [''0123456789'' ! n]
      else digits (n div 10) @ [''0123456789'' ! (n mod 10)])"

declare digits.simps [simp del]

text \<open>\<^verbatim>\<open>str(x)\<close>, also what an f-string prints for \<^verbatim>\<open>{x}\<close>.\<close>

fun py_str :: "scalar \<Rightarrow> string" where
  "py_str SNone = ''None''"
| "py_str SNaN = ''nan''"
| "py_str (SBool b) = (if b then ''True'' else ''False'')"
| "py_str (SInt i) = (if i < 0 then ''-'' @ digits (nat (- i)) else digits (nat i))"
| "py_str (SFloat r t) = t"
| "py_str (SStr s) = s"
| "py_str (STime t) = t"

section \<open>Dictionaries and the matcher object\<close>

text \<open>\<^verbatim>\<open>d.get(k, default)\<close>; \<^verbatim>\<open>d.get(k)\<close> is the case \<open>default = None\<close>.\<close>

definition dict_get :: "(string \<times> 'a) list \<Rightarrow> string \<Rightarrow> 'a \<Rightarrow> 'a" where
  "dict_get d k dflt = (case map_of d k of None \<Rightarrow> dflt | Some v \<Rightarrow> v)"

text \<open>\<^verbatim>\<open>x.get(k, default)\<close> on any value: only a dict has \<^verbatim>\<open>get\<close>.\<close>

fun py_get :: "pyval \<Rightarrow> string \<Rightarrow> pyval \<Rightarrow> py_error + pyval" where
  "py_get (PDict d) k dflt = Inr (dict_get d k dflt)"
| "py_get _ k dflt = Inl AttributeError"

type_synonym vendor_info = "(string \<times> scalar) list"

record matcher =
  vendor_list :: "string list"
  vendor_data :: "string \<rightharpoonup> vendor_info"
  amplify_api_url :: "string option"
  amplify_api_key :: "string option"

text \<open>\<^verbatim>\<open>not self.amplify_api_url or not self.amplify_api_key\<close> is the negation of this.\<close>

definition api_configured :: "matcher \<Rightarrow> bool" where
  "api_configured self =
     (amplify_api_url self \<noteq> None \<and> amplify_api_url self \<noteq> Some [] \<and>
      amplify_api_key self \<noteq> None \<and> amplify_api_key self \<noteq> Some [])"

text \<open>
  \<^verbatim>\<open>vendor_name not in self.vendor_data\<close> followed by \<^verbatim>\<open>self.vendor_data[vendor_name]\<close>.
  The keys of the registry are strings; a list or a dict is unhashable and the membership
  test raises.
\<close>

fun lookup_vendor :: "matcher \<Rightarrow> pyval \<Rightarrow> py_error + vendor_info option" where
  "lookup_vendor self (Sc (SStr name)) = Inr (vendor_data self name)"
| "lookup_vendor self (Sc _) = Inr None"
| "lookup_vendor self _ = Inl TypeError"

section \<open>The text-understanding service\<close>

text \<open>
  What one \<^verbatim>\<open>requests.post\<close> to the service comes to, seen from the code around it:
  \<open>Raised msg\<close> when anything inside the \<^verbatim>\<open>try\<close> block raised before an answer was
  parsed (\<open>msg\<close> is the text of the exception), otherwise the status code and what became
  of the \<^verbatim>\<open>data\<close> field: empty, not JSON (neither as it is nor inside a fenced block), or
  the value \<^verbatim>\<open>json.loads\<close> returned. The answers are inputs of the model.
\<close>

datatype body = Empty_data | Unparseable | Parsed pyval

datatype reply = Raised string | Response nat body

text \<open>The calls a run makes, in order; \<open>Http_post\<close> is one \<^verbatim>\<open>requests.post\<close>.\<close>

datatype event =
    Query_amplify_api
  | Validate_po_number
  | Validate_date_range
  | Validate_rate
  | Determine_contact_person
  | Http_post

section \<open>Vendor resolution\<close>

definition query_amplify_api :: "matcher \<Rightarrow> string \<Rightarrow> reply \<Rightarrow> event list \<times> pyval" where
  "query_amplify_api self pdf_text r =
     (if \<not> api_configured self then ([], PNone)
      else
        ([Http_post],
         case r of
           Raised msg \<Rightarrow> PNone
         | Response status_code b \<Rightarrow>
             if status_code = 200 then
               (case b of
                  Parsed answer \<Rightarrow> answer
                | Unparseable \<Rightarrow> PDict [(''vendor'', PNone)]
                | Empty_data \<Rightarrow> PDict [(''vendor'', PNone)])
             else PNone))"

section \<open>The three checks\<close>

definition validate_po_number :: "matcher \<Rightarrow> string \<Rightarrow> pyval \<Rightarrow> py_error + pydict" where
  "validate_po_number self pdf_text vendor_name =
     (case lookup_vendor self vendor_name of
        Inl e \<Rightarrow> Inl e
      | Inr None \<Rightarrow>
          Inr [(''po_valid'', PBool False), (''reason'', PStr ''Vendor not found in database'')]
      | Inr (Some vendor_info) \<Rightarrow>
          (let expected_po = dict_get vendor_info ''current_po'' SNone in
           if \<not> truthy expected_po \<or> isna expected_po then
             Inr [(''po_valid'', PNone),
                  (''reason'', PStr ''No PO number in database for this vendor'')]
           else
             (let po_str = strip (py_str expected_po) in
              if contains (lower po_str) (lower pdf_text) then
                Inr [(''po_valid'', PBool True), (''expected_po'', PStr po_str),
                     (''reason'', PStr ''PO number found in PDF'')]
              else
                Inr [(''po_valid'', PBool False), (''expected_po'', PStr po_str),
                     (''reason'', PStr ''PO number not found in PDF'')])))"

definition validate_dates_with_llm ::
  "matcher \<Rightarrow> string \<Rightarrow> scalar \<Rightarrow> scalar \<Rightarrow> reply \<Rightarrow> event list \<times> pyval" where
  "validate_dates_with_llm self pdf_text contract_start contract_end r =
     (if \<not> api_configured self then
        ([], PDict [(''date_valid'', PBool False),
                    (''reason'', PStr ''API not configured for date validation'')])
      else
        ([Http_post],
         case r of
           Raised msg \<Rightarrow>
             PDict [(''date_valid'', PBool False), (''reason'', PStr (''API error: '' @ msg))]
         | Response status_code b \<Rightarrow>
             if status_code = 200 then
               (case b of
                  Parsed date_result \<Rightarrow> date_result
                | Unparseable \<Rightarrow>
                    PDict [(''date_valid'', PBool False),
                           (''reason'', PStr ''Could not parse LLM response'')]
                | Empty_data \<Rightarrow>
                    PDict [(''date_valid'', PBool False), (''reason'', PStr ''API call failed'')])
             else PDict [(''date_valid'', PBool False), (''reason'', PStr ''API call failed'')]))"

definition validate_date_range ::
  "matcher \<Rightarrow> string \<Rightarrow> pyval \<Rightarrow> reply \<Rightarrow> py_error + event list \<times> pyval" where
  "validate_date_range self pdf_text vendor_name r =
     (case lookup_vendor self vendor_name of
        Inl e \<Rightarrow> Inl e
      | Inr None \<Rightarrow>
          Inr ([], PDict [(''date_valid'', PBool False),
                          (''reason'', PStr ''Vendor not found in database'')])
      | Inr (Some vendor_info) \<Rightarrow>
          (let contract_start = dict_get vendor_info ''contract_start'' SNone;
               contract_end = dict_get vendor_info ''contract_end'' SNone
           in
           if \<not> truthy contract_start \<or> \<not> truthy contract_end \<or>
              isna contract_start \<or> isna contract_end then
             Inr ([], PDict [(''date_valid'', PNone),
                             (''reason'', PStr ''No contract date range in database for this vendor'')])
           else Inr (validate_dates_with_llm self pdf_text contract_start contract_end r)))"

subsection \<open>Rate check\<close>

text \<open>
  \<^verbatim>\<open>expected_amount * 0.05\<close>: the value of a number (\<open>None\<close> for \<^verbatim>\<open>nan\<close>, whose products
  and sums are \<^verbatim>\<open>nan\<close>); the product raises on anything that is not a number.
\<close>

fun as_number :: "scalar \<Rightarrow> py_error + rat option" where
  "as_number (SInt i) = Inr (Some (of_int i))"
| "as_number (SFloat r t) = Inr (Some r)"
| "as_number (SBool b) = Inr (Some (if b then 1 else 0))"
| "as_number SNaN = Inr None"
| "as_number _ = Inl TypeError"

definition tolerance :: "rat \<Rightarrow> rat" where
  "tolerance expected_amount = expected_amount * (5 / 100)"

definition min_amount :: "rat \<Rightarrow> rat" where
  "min_amount expected_amount = expected_amount - tolerance expected_amount"

definition max_amount :: "rat \<Rightarrow> rat" where
  "max_amount expected_amount = expected_amount + tolerance expected_amount"

definition round_half_even :: "rat \<Rightarrow> int" where
  "round_half_even x =
     (let f = \<lfloor>x\<rfloor>; d = x - of_int f in
      if d < 1 / 2 then f else if 1 / 2 < d then f + 1 else if even f then f else f + 1)"

fun group3 :: "string \<Rightarrow> string" where
  "group3 (a # b # c # d # rest) = a # b # c # CHR '','' # group3 (d # rest)"
| "group3 xs = xs"

text \<open>The format \<^verbatim>\<open>{x:,.2f}\<close>: two decimals, thousands separated by commas.\<close>

definition format_money :: "rat \<Rightarrow> string" where
  "format_money x =
     (let cents = nat (round_half_even (\<bar>x\<bar> * 100)); whole = cents div 100; frac = cents mod 100 in
      (if x < 0 then ''-'' else []) @ rev (group3 (rev (digits whole))) @ ''.'' @
      (if frac < 10 then ''0'' else []) @ digits frac)"

definition tolerance_range :: "rat option \<Rightarrow> string" where
  "tolerance_range a =
     (case a of
        None \<Rightarrow> ''$nan - $nan''
      | Some expected_amount \<Rightarrow>
          ''$'' @ format_money (min_amount expected_amount) @ '' - $'' @
          format_money (max_amount expected_amount))"

fun type_name :: "scalar \<Rightarrow> string" where
  "type_name SNone = ''NoneType''"
| "type_name SNaN = ''float''"
| "type_name (SBool b) = ''bool''"
| "type_name (SInt i) = ''int''"
| "type_name (SFloat r t) = ''float''"
| "type_name (SStr s) = ''str''"
| "type_name (STime t) = ''Timestamp''"

text \<open>\<^verbatim>\<open>rate_result['expected_amount'] = ...\<close>: the text of the TypeError on a value that is no dict.\<close>

fun setitem_message :: "pyval \<Rightarrow> string" where
  "setitem_message (Sc c) =
     [CHR 0x27] @ type_name c @ [CHR 0x27] @ '' object does not support item assignment''"
| "setitem_message _ = ''list indices must be integers or slices, not str''"

definition validate_rate_with_llm ::
  "matcher \<Rightarrow> string \<Rightarrow> scalar \<Rightarrow> scalar \<Rightarrow> reply \<Rightarrow> py_error + event list \<times> pydict" where
  "validate_rate_with_llm self pdf_text expected_rate_type expected_amount r =
     (if \<not> api_configured self then
        Inr ([], [(''rate_valid'', PBool False),
                  (''reason'', PStr ''API not configured for rate validation'')])
      else
        (case as_number expected_amount of
           Inl e \<Rightarrow> Inl e
         | Inr a \<Rightarrow>
             Inr ([Http_post],
               case r of
                 Raised msg \<Rightarrow>
                   [(''rate_valid'', PBool False), (''reason'', PStr (''API error: '' @ msg))]
               | Response status_code b \<Rightarrow>
                   if status_code = 200 then
                     (case b of
                        Parsed (PDict rate_result) \<Rightarrow>
                          AList.update ''tolerance_range'' (PStr (tolerance_range a))
                            (AList.update ''expected_type'' (Sc expected_rate_type)
                               (AList.update ''expected_amount'' (Sc expected_amount) rate_result))
                      | Parsed v \<Rightarrow>
                          [(''rate_valid'', PBool False),
                           (''reason'', PStr (''API error: '' @ setitem_message v))]
                      | Unparseable \<Rightarrow>
                          [(''rate_valid'', PBool False),
                           (''reason'', PStr ''Could not parse LLM response'')]
                      | Empty_data \<Rightarrow>
                          [(''rate_valid'', PBool False), (''reason'', PStr ''API call failed'')])
                   else [(''rate_valid'', PBool False), (''reason'', PStr ''API call failed'')])))"

text \<open>\<^verbatim>\<open>rate_type.lower()\<close>: only a string has \<^verbatim>\<open>lower\<close>.\<close>

fun str_lower :: "scalar \<Rightarrow> py_error + string" where
  "str_lower (SStr s) = Inr (lower s)"
| "str_lower _ = Inl AttributeError"

definition validate_rate ::
  "matcher \<Rightarrow> string \<Rightarrow> pyval \<Rightarrow> reply \<Rightarrow> py_error + event list \<times> pydict" where
  "validate_rate self pdf_text vendor_name r =
     (case lookup_vendor self vendor_name of
        Inl e \<Rightarrow> Inl e
      | Inr None \<Rightarrow>
          Inr ([], [(''rate_valid'', PBool False), (''reason'', PStr ''Vendor not found in database'')])
      | Inr (Some vendor_info) \<Rightarrow>
          (let rate_type = dict_get vendor_info ''rate_type'' SNone;
               rate_amount = dict_get vendor_info ''rate_amount'' SNone
           in
           if \<not> truthy rate_type \<and> \<not> truthy rate_amount then
             Inr ([], [(''rate_valid'', PNone),
                       (''reason'', PStr ''No rate data in database for this vendor'')])
           else
             (case (if truthy rate_type then str_lower rate_type else Inr []) of
                Inl e \<Rightarrow> Inl e
              | Inr lowered \<Rightarrow>
                  if truthy rate_type \<and> lowered \<in> set [''variable'', ''as needed''] then
                    Inr ([], [(''rate_valid'', PBool True), (''rate_type'', Sc rate_type),
                              (''reason'', PStr (''Rate type is '' @ [CHR 0x27] @ py_str rate_type @
                                                 [CHR 0x27] @ '' - automatic pass'')),
                              (''is_variable'', PBool True)])
                  else if truthy rate_type \<and> truthy rate_amount then
                    validate_rate_with_llm self pdf_text rate_type rate_amount r
                  else if truthy rate_amount \<and> \<not> truthy rate_type then
                    validate_rate_with_llm self pdf_text (SStr ''unknown'') rate_amount r
                  else
                    Inr ([], [(''rate_valid'', PNone),
                              (''reason'', PStr (''Incomplete rate data - type: '' @ py_str rate_type @
                                                 '', amount: '' @ py_str rate_amount))]))))"

section \<open>Routing\<close>

text \<open>
  The test \<^verbatim>\<open>x and str(x).lower() not in ['nan', '']\<close> that the source writes out for the
  director, the main contact and the chosen contact.
\<close>

definition usable :: "scalar \<Rightarrow> bool" where
  "usable x = (truthy x \<and> lower (py_str x) \<notin> set [''nan'', []])"

text \<open>
  The reason given with the admin contact: the list \<^verbatim>\<open>reasons\<close> built from the four flags,
  joined after a fixed prefix, or a default text when the list is empty.
\<close>

definition admin_reason :: "bool \<Rightarrow> bool \<Rightarrow> bool \<Rightarrow> bool \<Rightarrow> string" where
  "admin_reason po_failed date_failed rate_failed is_variable_rate =
     (let reasons = (if po_failed then [''PO validation failed''] else []) @
                    (if date_failed then [''date validation failed''] else []) @
                    (if rate_failed then [''rate validation failed''] else []) @
                    (if is_variable_rate then [''variable rate type''] else [])
      in if reasons \<noteq> []
         then ''Issue requires admin attention: '' @ join_str '', '' reasons
         else ''Default admin contact'')"

definition determine_contact_person ::
  "matcher \<Rightarrow> pyval \<Rightarrow> pydict \<Rightarrow> pyval \<Rightarrow> pydict \<Rightarrow> py_error + pydict" where
  "determine_contact_person self vendor_name po_validation date_validation rate_validation =
     (case lookup_vendor self vendor_name of
        Inl e \<Rightarrow> Inl e
      | Inr None \<Rightarrow>
          Inr [(''name'', PStr ''Unknown''), (''role'', PStr ''Unknown''),
               (''reason'', PStr ''Vendor not found in database'')]
      | Inr (Some vendor_info) \<Rightarrow>
          (case py_get date_validation ''date_valid'' PNone of
             Inl e \<Rightarrow> Inl e
           | Inr date_valid \<Rightarrow>
               (let po_failed = (dict_get po_validation ''po_valid'' PNone = PBool False);
                    date_failed = (date_valid = PBool False);
                    rate_failed = (dict_get rate_validation ''rate_valid'' PNone = PBool False);
                    is_variable_rate = truthy_val (dict_get rate_validation ''is_variable'' (PBool False));
                    director = py_or (dict_get vendor_info ''director'' SNone)
                                     (dict_get vendor_info ''Asst Director / Director'' SNone);
                    main_contact = py_or (dict_get vendor_info ''Main Contact'' SNone)
                                         (dict_get vendor_info ''main_contact'' SNone);
                    admin = py_or (dict_get vendor_info ''Admin'' SNone)
                                  (dict_get vendor_info ''admin'' SNone);
                    contact = (if usable main_contact then main_contact else admin);
                    reason = admin_reason po_failed date_failed rate_failed is_variable_rate
                in
                if \<not> (po_failed \<or> date_failed \<or> rate_failed \<or> is_variable_rate) \<and> usable director then
                  Inr [(''name'', Sc director), (''role'', PStr ''Director/Manager''),
                       (''reason'', PStr ''All validations passed and rate is fixed'')]
                else if usable contact then
                  Inr [(''name'', Sc contact), (''role'', PStr ''Admin/Main Contact''),
                       (''reason'', PStr reason)]
                else
                  Inr [(''name'', PStr ''Unknown''), (''role'', PStr ''Unknown''),
                       (''reason'', PStr ''No contact information available'')])))"

section \<open>The orchestrator\<close>

text \<open>
  The test \<^verbatim>\<open>not api_response or 'vendor' not in api_response or not api_response['vendor']\<close>
  of \<open>process_pdf\<close> and, where it is false, the value \<^verbatim>\<open>api_response['vendor']\<close> read next:
  \<open>Inr None\<close> is "no vendor match". A true number or bool is not iterable; a list or a string
  that contains \<^verbatim>\<open>'vendor'\<close> cannot be indexed by it.
\<close>

fun vendor_of :: "pyval \<Rightarrow> py_error + pyval option" where
  "vendor_of (PDict d) =
     (if d = [] then Inr None
      else case map_of d ''vendor'' of
             None \<Rightarrow> Inr None
           | Some v \<Rightarrow> if truthy_val v then Inr (Some v) else Inr None)"
| "vendor_of (PList xs) =
     (if xs = [] then Inr None
      else if PStr ''vendor'' \<in> set xs then Inl TypeError else Inr None)"
| "vendor_of (Sc (SStr s)) =
     (if s = [] then Inr None
      else if contains ''vendor'' s then Inl TypeError else Inr None)"
| "vendor_of (Sc c) = (if \<not> truthy c then Inr None else Inl TypeError)"

definition no_vendor_result :: pydict where
  "no_vendor_result =
     [(''vendor'', PNone), (''po_valid'', PNone), (''date_valid'', PNone),
      (''method'', PStr ''amplify_api'')]"

text \<open>
  \<open>process_pdf\<close> from the text that \<^verbatim>\<open>extract_pdf_text\<close> returned, with the service's
  answers to the three requests. The result is the returned dict and the calls made;
  \<open>and_then\<close> passes a raised exception on.
\<close>

definition and_then :: "'e + 'a \<Rightarrow> ('a \<Rightarrow> 'e + 'b) \<Rightarrow> 'e + 'b" where
  "and_then m f = (case m of Inl e \<Rightarrow> Inl e | Inr x \<Rightarrow> f x)"

definition process_pdf ::
  "matcher \<Rightarrow> string \<Rightarrow> reply \<Rightarrow> reply \<Rightarrow> reply \<Rightarrow> py_error + event list \<times> pydict" where
  "process_pdf self pdf_text vendor_reply date_reply rate_reply =
     (if pdf_text = [] then Inr ([], [(''error'', PStr ''Could not extract text from PDF'')])
      else if \<not> api_configured self then Inr ([], [(''error'', PStr ''API not configured'')])
      else
        (let ev1 = fst (query_amplify_api self pdf_text vendor_reply);
             api_response = snd (query_amplify_api self pdf_text vendor_reply)
         in
         and_then (vendor_of api_response) (\<lambda>resolved.
         case resolved of
           None \<Rightarrow> Inr (Query_amplify_api # ev1, no_vendor_result)
         | Some vendor_name \<Rightarrow>
         and_then (validate_po_number self pdf_text vendor_name) (\<lambda>po_validation.
         and_then (validate_date_range self pdf_text vendor_name date_reply) (\<lambda>date_run.
         and_then (validate_rate self pdf_text vendor_name rate_reply) (\<lambda>rate_run.
         let ev2 = fst date_run; date_validation = snd date_run;
             ev3 = fst rate_run; rate_validation = snd rate_run
         in
         and_then (determine_contact_person self vendor_name po_validation date_validation
                     rate_validation) (\<lambda>contact_person.
         and_then (py_get date_validation ''date_valid'' PNone) (\<lambda>date_valid.
         and_then (py_get date_validation ''reason'' PNone) (\<lambda>date_reason.
         and_then (py_get date_validation ''dates_found'' (PList [])) (\<lambda>dates_found.
         and_then (py_get date_validation ''valid_dates'' (PList [])) (\<lambda>valid_dates.
           Inr (Query_amplify_api # ev1 @ [Validate_po_number] @ Validate_date_range # ev2 @
                Validate_rate # ev3 @ [Determine_contact_person],
                [(''vendor'', vendor_name),
                 (''method'', PStr ''amplify_api''),
                 (''po_valid'', dict_get po_validation ''po_valid'' PNone),
                 (''po_reason'', dict_get po_validation ''reason'' PNone),
                 (''expected_po'', dict_get po_validation ''expected_po'' PNone),
                 (''date_valid'', date_valid),
                 (''date_reason'', date_reason),
                 (''dates_found'', dates_found),
                 (''valid_dates'', valid_dates),
                 (''rate_valid'', dict_get rate_validation ''rate_valid'' PNone),
                 (''rate_reason'', dict_get rate_validation ''reason'' PNone),
                 (''rate_type'', dict_get rate_validation ''rate_type'' PNone),
                 (''expected_amount'', dict_get rate_validation ''expected_amount'' PNone),
                 (''amounts_found'', dict_get rate_validation ''amounts_found'' (PList [])),
                 (''is_variable_rate'', dict_get rate_validation ''is_variable'' (PBool False)),
                 (''contact_person'', dict_get contact_person ''name'' PNone),
                 (''contact_role'', dict_get contact_person ''role'' PNone),
                 (''contact_reason'', dict_get contact_person ''reason'' PNone)]))))))))))))"

section \<open>Loading the rate sheet\<close>










section \<open>Reference predicates and example data\<close>


definition mid_south :: vendor_info where
  "mid_south =
     [(''contract_start'', STime ''2025-01-01 00:00:00''),
      (''contract_end'', STime ''2025-12-31 00:00:00''),
      (''current_po'', SStr ''P26003063''),
      (''rate_amount'', SInt 500),
      (''rate_type'', SStr ''monthly''),
      (''director'', SStr ''Dana Reed''),
      (''Main Contact'', SStr ''Morgan Hill''),
      (''Admin'', SStr ''Alex Stone'')]"

definition budd_group :: vendor_info where
  "budd_group =
     [(''contract_start'', STime ''2025-01-01 00:00:00''),
      (''contract_end'', STime ''2025-12-31 00:00:00''),
      (''current_po'', SNaN),
      (''rate_amount'', SInt 500),
      (''rate_type'', SStr ''monthly''),
      (''director'', SStr ''Dana Reed''),
      (''Admin'', SStr ''Alex Stone'')]"

definition bouchard :: vendor_info where
  "bouchard =
     [(''contract_start'', STime ''2025-01-01 00:00:00''),
      (''contract_end'', SNaN),
      (''current_po'', SStr ''P25063542''),
      (''rate_type'', SStr ''as needed'')]"

definition example_matcher :: matcher where
  "example_matcher =
     \<lparr>vendor_list = [''Mid South'', ''Budd Group'', ''Bouchard''],
      vendor_data = map_of [(''Mid South'', mid_south), (''Budd Group'', budd_group),
                            (''Bouchard'', bouchard)],
      amplify_api_url = Some ''https://amplify.example/chat'',
      amplify_api_key = Some ''secret''\<rparr>"

definition vendor_answer :: "string \<Rightarrow> reply" where
  "vendor_answer name = Response 200 (Parsed (PDict [(''vendor'', PStr name)]))"

definition no_match :: reply where
  "no_match = Response 200 (Parsed (PDict [(''vendor'', PNone)]))"

definition dates_valid :: reply where
  "dates_valid =
     Response 200 (Parsed (PDict
       [(''dates_found'', PList [PStr ''2025-06-15'']), (''date_valid'', PBool True),
        (''valid_dates'', PList [PStr ''2025-06-15'']), (''reason'', PStr ''in range'')]))"

definition rate_valid_505 :: reply where
  "rate_valid_505 =
     Response 200 (Parsed (PDict
       [(''amounts_found'', PList [Sc (SFloat 505 ''505.0'')]), (''rate_valid'', PBool True),
        (''matching_amounts'', PList [Sc (SFloat 505 ''505.0'')]), (''reason'', PStr ''within range'')]))"

definition rate_rejected_505 :: reply where
  "rate_rejected_505 =
     Response 200 (Parsed (PDict
       [(''amounts_found'', PList [Sc (SFloat 505 ''505.0'')]), (''rate_valid'', PBool False),
        (''matching_amounts'', PList []), (''reason'', PStr ''no amount matched'')]))"

text \<open>
  A transport failure of a request: the call raised, or the status code is not 200.
\<close>

definition transport_failure :: "reply \<Rightarrow> bool" where
  "transport_failure r = (case r of Raised msg \<Rightarrow> True | Response status_code b \<Rightarrow> status_code \<noteq> 200)"



section \<open>Auxiliary facts\<close>



lemmas str_defs = strip_def is_space_def lower_def lower_char_def

lemma dict_get_Nil: "dict_get [] k dflt = dflt"
  by (simp add: dict_get_def)

lemma dict_get_Cons: "dict_get ((k, v) # d) k' dflt = (if k = k' then v else dict_get d k' dflt)"
  by (simp add: dict_get_def)





lemma and_then_simps:
  "and_then (Inl e) f = Inl e"
  "and_then (Inr x) f = f x"
  by (simp_all add: and_then_def)












section \<open>Properties\<close>

subsection \<open>Empty text\<close>

text \<open>
  C9. When the text extracted from the document is empty, \<open>process_pdf\<close> returns the error
  object \<^verbatim>\<open>{"error": "Could not extract text from PDF"}\<close> and makes no call at all: no
  vendor resolution, no check, no routing, no request to the service, whatever the
  matcher and the service's answers are.
\<close>

theorem empty_text_short_circuits:
  "process_pdf self [] vendor_reply date_reply rate_reply =
     Inr ([], [(''error'', PStr ''Could not extract text from PDF'')])"
  by (simp add: process_pdf_def)

subsection \<open>Routing to the director\<close>





subsection \<open>Routing to the admin contact\<close>




subsection \<open>PO check\<close>



subsection \<open>Variable rates\<close>

text \<open>
  C5. For a vendor of the registry whose rate type is \<^verbatim>\<open>variable\<close> or \<^verbatim>\<open>as needed\<close> (in any
  letter case), the rate check returns valid with \<^verbatim>\<open>is_variable = True\<close>, for every
  document text and every answer of the service, and makes no request.
\<close>

theorem variable_rate_always_valid:
  assumes "vendor_data self name = Some info"
    and "dict_get info ''rate_type'' SNone = SStr rate_type"
    and "lower rate_type = ''variable'' \<or> lower rate_type = ''as needed''"
  shows "validate_rate self pdf_text (PStr name) rate_reply =
     Inr ([], [(''rate_valid'', PBool True), (''rate_type'', PStr rate_type),
               (''reason'', PStr (''Rate type is '' @ [CHR 0x27] @ rate_type @ [CHR 0x27] @
                                  '' - automatic pass'')),
               (''is_variable'', PBool True)])"
proof -
  have "rate_type \<noteq> []" using assms(3) by (auto simp: lower_def)
  then show ?thesis
    using assms by (auto simp: validate_rate_def Let_def)
qed

theorem variable_rate_always_valid_witness:
  "vendor_data example_matcher ''Bouchard'' = Some bouchard \<and>
   dict_get bouchard ''rate_type'' SNone = SStr ''as needed'' \<and>
   lower ''as needed'' = ''as needed'' \<and>
   validate_rate example_matcher ''any text $1.00'' (PStr ''Bouchard'') rate_rejected_505 =
     Inr ([], [(''rate_valid'', PBool True), (''rate_type'', PStr ''as needed''),
               (''reason'', PStr (''Rate type is '' @ [CHR 0x27] @ ''as needed'' @ [CHR 0x27] @
                                  '' - automatic pass'')),
               (''is_variable'', PBool True)])"
proof -
  have v: "vendor_data example_matcher ''Bouchard'' = Some bouchard"
    by (simp add: example_matcher_def)
  have t: "dict_get bouchard ''rate_type'' SNone = SStr ''as needed''"
    by (simp add: bouchard_def dict_get_Cons)
  have l: "lower ''as needed'' = ''variable'' \<or> lower ''as needed'' = ''as needed''"
    by (simp add: str_defs)
  show ?thesis
    using variable_rate_always_valid [OF v t l, of "''any text $1.00''" rate_rejected_505] v t l
    by (simp add: str_defs)
qed

subsection \<open>Vendor missing from the registry\<close>

text \<open>
  C10. If the resolver returns a vendor name that is not a key of the registry, nothing
  raises: each of the three checks returns invalid (\<^verbatim>\<open>False\<close>) with the reason
  \<^verbatim>\<open>Vendor not found in database\<close> and makes no request, routing returns name
  \<^verbatim>\<open>Unknown\<close>, role \<^verbatim>\<open>Unknown\<close> with the same reason, and \<open>process_pdf\<close> returns the result
  assembled from these.
\<close>

theorem unknown_vendor_not_found:
  assumes "vendor_data self name = None"
  shows "validate_po_number self pdf_text (PStr name) =
           Inr [(''po_valid'', PBool False), (''reason'', PStr ''Vendor not found in database'')] \<and>
         validate_date_range self pdf_text (PStr name) date_reply =
           Inr ([], PDict [(''date_valid'', PBool False),
                           (''reason'', PStr ''Vendor not found in database'')]) \<and>
         validate_rate self pdf_text (PStr name) rate_reply =
           Inr ([], [(''rate_valid'', PBool False),
                     (''reason'', PStr ''Vendor not found in database'')]) \<and>
         determine_contact_person self (PStr name) po_validation date_validation rate_validation =
           Inr [(''name'', PStr ''Unknown''), (''role'', PStr ''Unknown''),
                (''reason'', PStr ''Vendor not found in database'')] \<and>
         (pdf_text \<noteq> [] \<and> api_configured self \<and> name \<noteq> [] \<longrightarrow>
          process_pdf self pdf_text (vendor_answer name) date_reply rate_reply =
            Inr ([Query_amplify_api, Http_post, Validate_po_number, Validate_date_range,
                  Validate_rate, Determine_contact_person],
                 [(''vendor'', PStr name),
                  (''method'', PStr ''amplify_api''),
                  (''po_valid'', PBool False),
                  (''po_reason'', PStr ''Vendor not found in database''),
                  (''expected_po'', PNone),
                  (''date_valid'', PBool False),
                  (''date_reason'', PStr ''Vendor not found in database''),
                  (''dates_found'', PList []),
                  (''valid_dates'', PList []),
                  (''rate_valid'', PBool False),
                  (''rate_reason'', PStr ''Vendor not found in database''),
                  (''rate_type'', PNone),
                  (''expected_amount'', PNone),
                  (''amounts_found'', PList []),
                  (''is_variable_rate'', PBool False),
                  (''contact_person'', PStr ''Unknown''),
                  (''contact_role'', PStr ''Unknown''),
                  (''contact_reason'', PStr ''Vendor not found in database'')]))"
proof -
  have po: "validate_po_number self pdf_text (PStr name) =
           Inr [(''po_valid'', PBool False), (''reason'', PStr ''Vendor not found in database'')]"
    using assms by (simp add: validate_po_number_def)
  have dt: "validate_date_range self pdf_text (PStr name) date_reply =
           Inr ([], PDict [(''date_valid'', PBool False),
                           (''reason'', PStr ''Vendor not found in database'')])"
    using assms by (simp add: validate_date_range_def)
  have rt: "validate_rate self pdf_text (PStr name) rate_reply =
           Inr ([], [(''rate_valid'', PBool False),
                     (''reason'', PStr ''Vendor not found in database'')])"
    using assms by (simp add: validate_rate_def)
  have cp: "determine_contact_person self (PStr name) pv dv rv =
           Inr [(''name'', PStr ''Unknown''), (''role'', PStr ''Unknown''),
                (''reason'', PStr ''Vendor not found in database'')]" for pv dv rv
    using assms by (simp add: determine_contact_person_def)
  have run: "process_pdf self pdf_text (vendor_answer name) date_reply rate_reply =
            Inr ([Query_amplify_api, Http_post, Validate_po_number, Validate_date_range,
                  Validate_rate, Determine_contact_person],
                 [(''vendor'', PStr name),
                  (''method'', PStr ''amplify_api''),
                  (''po_valid'', PBool False),
                  (''po_reason'', PStr ''Vendor not found in database''),
                  (''expected_po'', PNone),
                  (''date_valid'', PBool False),
                  (''date_reason'', PStr ''Vendor not found in database''),
                  (''dates_found'', PList []),
                  (''valid_dates'', PList []),
                  (''rate_valid'', PBool False),
                  (''rate_reason'', PStr ''Vendor not found in database''),
                  (''rate_type'', PNone),
                  (''expected_amount'', PNone),
                  (''amounts_found'', PList []),
                  (''is_variable_rate'', PBool False),
                  (''contact_person'', PStr ''Unknown''),
                  (''contact_role'', PStr ''Unknown''),
                  (''contact_reason'', PStr ''Vendor not found in database'')])"
    if "pdf_text \<noteq> []" "api_configured self" "name \<noteq> []"
    using that
    by (simp add: process_pdf_def Let_def query_amplify_api_def vendor_answer_def
        and_then_simps po dt rt cp dict_get_Cons dict_get_Nil)
  show ?thesis using po dt rt cp run by blast
qed

theorem unknown_vendor_not_found_witness:
  "vendor_data example_matcher ''Acme Tools'' = None \<and>
   ''x'' \<noteq> [] \<and> api_configured example_matcher \<and> ''Acme Tools'' \<noteq> [] \<and>
   validate_po_number example_matcher ''x'' (PStr ''Acme Tools'') =
     Inr [(''po_valid'', PBool False), (''reason'', PStr ''Vendor not found in database'')] \<and>
   (\<exists>calls result.
      process_pdf example_matcher ''x'' (vendor_answer ''Acme Tools'') dates_valid rate_valid_505 =
        Inr (calls, result) \<and>
      dict_get result ''contact_role'' PNone = PStr ''Unknown'' \<and>
      dict_get result ''contact_reason'' PNone = PStr ''Vendor not found in database'')"
proof -
  have v: "vendor_data example_matcher ''Acme Tools'' = None"
    by (simp add: example_matcher_def)
  have c: "api_configured example_matcher"
    by (simp add: example_matcher_def api_configured_def)
  show ?thesis
    using unknown_vendor_not_found [OF v, of "''x''" dates_valid rate_valid_505] v c
    by (simp add: dict_get_Cons)
qed

subsection \<open>Resolver failures\<close>

text \<open>
  A request that raised, or that came back with status 500, gives the same result as the
  answer \<^verbatim>\<open>{"vendor": null}\<close>.
\<close>

theorem transport_failure_same_as_no_match_example:
  "process_pdf example_matcher ''Invoice 12628'' (Raised ''timed out'') dates_valid rate_valid_505 =
   process_pdf example_matcher ''Invoice 12628'' no_match dates_valid rate_valid_505 \<and>
   process_pdf example_matcher ''Invoice 12628'' (Response 500 Empty_data) dates_valid rate_valid_505 =
   process_pdf example_matcher ''Invoice 12628'' no_match dates_valid rate_valid_505"
  by (simp add: process_pdf_def Let_def query_amplify_api_def no_match_def and_then_simps
      api_configured_def example_matcher_def)

text \<open>
  C4 (as the code has it). With a non-empty text and a configured service, a transport
  failure of the vendor request (the call raised, or the status is not 200) and a confident
  no-match both make \<open>process_pdf\<close> return the same dict, with \<^verbatim>\<open>vendor\<close>, \<^verbatim>\<open>po_valid\<close> and
  \<^verbatim>\<open>date_valid\<close> all \<^verbatim>\<open>None\<close>; the two differ only in what \<open>query_amplify_api\<close> returns
  (\<^verbatim>\<open>None\<close> against \<^verbatim>\<open>{"vendor": None}\<close>).
\<close>

theorem transport_failure_reported_as_no_match:
  assumes "pdf_text \<noteq> []" and "api_configured self" and "transport_failure r"
  shows "process_pdf self pdf_text r date_reply rate_reply =
           Inr ([Query_amplify_api, Http_post], no_vendor_result) \<and>
         process_pdf self pdf_text no_match date_reply rate_reply =
           Inr ([Query_amplify_api, Http_post], no_vendor_result) \<and>
         snd (query_amplify_api self pdf_text r) = PNone \<and>
         snd (query_amplify_api self pdf_text no_match) = PDict [(''vendor'', PNone)]"
  using assms
  by (cases r)
     (simp_all add: process_pdf_def Let_def query_amplify_api_def no_match_def and_then_simps
        transport_failure_def)

theorem transport_failure_reported_as_no_match_witness:
  "''Invoice 12628'' \<noteq> [] \<and> api_configured example_matcher \<and>
   transport_failure (Response 503 Empty_data) \<and>
   process_pdf example_matcher ''Invoice 12628'' (Response 503 Empty_data) dates_valid rate_valid_505 =
     Inr ([Query_amplify_api, Http_post],
          [(''vendor'', PNone), (''po_valid'', PNone), (''date_valid'', PNone),
           (''method'', PStr ''amplify_api'')])"
proof -
  have c: "api_configured example_matcher"
    by (simp add: example_matcher_def api_configured_def)
  have t: "transport_failure (Response 503 Empty_data)"
    by (simp add: transport_failure_def)
  have n: "''Invoice 12628'' \<noteq> []" by simp
  show ?thesis
    using transport_failure_reported_as_no_match [OF n c t, of dates_valid rate_valid_505] c t
    by (simp add: no_vendor_result_def)
qed

subsection \<open>Date-range check\<close>




subsection \<open>Rate check\<close>




subsection \<open>Rate sheet\<close>




end
